theory Spec2Isabelle
  imports Main "HOL-Library.Char_ord" "HOL-Library.List_Lexorder"
begin

section \<open>Data model\<close>

text \<open>
  The library catalogue keeps four collections of documents. An identifier is the text of
  a document's \<^verbatim>\<open>_id\<close>, as it appears in request paths and form fields. A date is the
  time value of a JavaScript \<^verbatim>\<open>Date\<close> (milliseconds since the epoch).
\<close>

type_synonym oid = string
type_synonym date = int

record book =
  book_id :: oid
  title :: string
  author :: oid
  summary :: string
  isbn :: string
  genre :: "oid list"

text \<open>\<^verbatim>\<open>AuthorSchema\<close>: both dates are optional.\<close>

record author =
  author_id :: oid
  first_name :: string
  family_name :: string
  date_of_birth :: "date option"
  date_of_death :: "date option"

record genre =
  genre_id :: oid
  genre_name :: string

record bookinstance =
  instance_id :: oid
  instance_book :: oid
  imprint :: string
  status :: string
  due_back :: "date option"

record store =
  Book_coll :: "book list"
  BookInstance_coll :: "bookinstance list"
  Author_coll :: "author list"
  Genre_coll :: "genre list"

section \<open>The Author model's derived fields\<close>

text \<open>
  \<^verbatim>\<open>AuthorSchema.virtual("lifespan")\<close>. The text of a date is produced by luxon
  (\<^verbatim>\<open>DateTime.fromJSDate(d).setLocale("en-gb").toLocaleString(DateTime.DATE_MED)\<close>), a
  library outside the repository: it is the parameter \<open>DATE_MED\<close>. The getter starts from
  the empty string and appends to it twice, each time under its own test.
\<close>

definition lifespan :: "(date \<Rightarrow> string) \<Rightarrow> author \<Rightarrow> string" where
  "lifespan DATE_MED this =
     (let lifespan0 = [];
          lifespan1 = (case date_of_birth this of
                         Some b \<Rightarrow> (lifespan0 @ ''Born: '') @ DATE_MED b
                       | None \<Rightarrow> lifespan0);
          lifespan2 = (case date_of_death this of
                         Some d \<Rightarrow> (lifespan1 @ '' - Died: '') @ DATE_MED d
                       | None \<Rightarrow> lifespan1)
      in lifespan2)"

text \<open>\<^verbatim>\<open>AuthorSchema.virtual("url")\<close>.\<close>

definition author_url :: "author \<Rightarrow> string" where
  "author_url this = ''/catalog/author/'' @ author_id this"

text \<open>
  The lifespan as the specification words it: the pattern
  \<^verbatim>\<open>Born: <date> - Died: <date>\<close>, a clause left out when its date is absent so that only
  the other clause remains. This definition follows the specification, not the code; it is
  there to be compared with \<^const>\<open>lifespan\<close>.
\<close>

definition spec_lifespan :: "(date \<Rightarrow> string) \<Rightarrow> author \<Rightarrow> string" where
  "spec_lifespan DATE_MED this =
     (case (date_of_birth this, date_of_death this) of
        (Some b, Some d) \<Rightarrow> ''Born: '' @ DATE_MED b @ '' - Died: '' @ DATE_MED d
      | (Some b, None) \<Rightarrow> ''Born: '' @ DATE_MED b
      | (None, Some d) \<Rightarrow> ''Died: '' @ DATE_MED d
      | (None, None) \<Rightarrow> [])"

section \<open>Requests, errors and responses\<close>

text \<open>
  A Number, as far as \<^verbatim>\<open>new Array\<close> tells Numbers apart: a whole number, or any other
  Number (one with a fraction, \<^verbatim>\<open>NaN\<close>, an infinity).
\<close>

datatype number = Integer int | NonInteger

text \<open>
  What \<^verbatim>\<open>req.body.genre\<close> can hold: nothing, one string, a Number (a body sent as JSON
  can carry one), an array of strings (the same form field submitted several times), or an
  array of a given length with no elements, which is what \<^verbatim>\<open>new Array(n)\<close> builds
  (of length 0, it is the empty array again; nothing below tells the two apart).
  The book form has one text input each for title, summary and ISBN, one selection for
  the author, and one checkbox per genre.
\<close>

datatype field =
    Undefined
  | Scalar string
  | is_Number: Number number
  | Array "string list"
  | Sparse nat

record body =
  body_title :: "string option"
  body_author :: "string option"
  body_summary :: "string option"
  body_isbn :: "string option"
  body_genre :: field

text \<open>
  What a handler can hand to \<^verbatim>\<open>next\<close>: an \<^verbatim>\<open>Error\<close> with its message and its
  \<^verbatim>\<open>status\<close> property when one was set, the \<^verbatim>\<open>TypeError\<close> of reading a property of
  \<^verbatim>\<open>null\<close>, the \<^verbatim>\<open>RangeError\<close> of an invalid array length, and the rejection of a
  store query. Store failures are not told apart.
\<close>

datatype error = Error string "nat option" | TypeError | RangeError | StoreFailure

text \<open>An entry of \<^verbatim>\<open>validationResult(req).array()\<close>: the field and its message.\<close>

record verror =
  err_path :: string
  err_msg :: string

text \<open>
  A book after \<^verbatim>\<open>populate("author genre")\<close>: the document, the author its reference
  resolves to, and the genres its references resolve to.
\<close>

datatype populated =
  Populated (doc: book) (author_doc: "author option") (genre_docs: "genre list")

datatype form_book = Plain book | Joined populated

text \<open>
  The data handed to a template, by template: the first component is always the
  \<^verbatim>\<open>title\<close>. \<open>Index_locals\<close> carries \<^verbatim>\<open>book_count\<close>, \<^verbatim>\<open>book_instance_count\<close>,
  \<^verbatim>\<open>book_instance_available_count\<close>, \<^verbatim>\<open>author_count\<close>, \<^verbatim>\<open>genre_count\<close>;
  \<open>Book_detail_locals\<close> carries \<^verbatim>\<open>book\<close> and \<^verbatim>\<open>book_instances\<close>; \<open>Book_form_locals\<close>
  carries \<^verbatim>\<open>authors\<close>, \<^verbatim>\<open>genres\<close> (each with whether it was marked \<^verbatim>\<open>checked\<close>),
  \<^verbatim>\<open>book\<close> and \<^verbatim>\<open>errors\<close> (the last two may be left out); \<open>Book_delete_locals\<close> carries
  \<^verbatim>\<open>book\<close> (possibly \<^verbatim>\<open>null\<close>) and \<^verbatim>\<open>book_instances\<close>.
\<close>

datatype locals =
    Index_locals string nat nat nat nat nat
  | Book_detail_locals string populated "bookinstance list"
  | Book_form_locals string "author list" "(genre \<times> bool) list" "form_book option"
      "verror list option"
  | Book_delete_locals string "book option" "bookinstance list"

text \<open>
  The calls a handler makes on \<^verbatim>\<open>res\<close> and \<^verbatim>\<open>next\<close>, in the order it makes them.
\<close>

datatype effect = Render string locals | Redirect string | Next error

text \<open>
  \<^verbatim>\<open>asyncHandler\<close> (express-async-handler): a handler whose promise rejects has the
  rejection passed to \<^verbatim>\<open>next\<close>.
\<close>

definition asyncHandler :: "error + effect list \<Rightarrow> effect list" where
  "asyncHandler r = (case r of Inl err \<Rightarrow> [Next err] | Inr effects \<Rightarrow> effects)"

section \<open>The persistence capability\<close>

text \<open>
  Modelled from the spec: the Book, Genre and BookInstance models and the document-store
  driver are not among the sources. Section 6 of the specification lists the operations:
  find-by-id (a record or not found), find with a filter (a sequence, optionally sorted,
  with references joined), count, insert, update-by-id, delete-by-id. A collection is the
  list of its documents.
\<close>

definition findById :: "oid \<Rightarrow> book list \<Rightarrow> book option" where
  "findById i docs = find (\<lambda>d. book_id d = i) docs"

text \<open>Modelled from the spec: \<^verbatim>\<open>BookInstance.find({ book: id })\<close>, find with a filter.\<close>

definition find_instances :: "oid \<Rightarrow> bookinstance list \<Rightarrow> bookinstance list" where
  "find_instances i docs = filter (\<lambda>d. instance_book d = i) docs"

text \<open>
  Modelled from the spec: \<^verbatim>\<open>Author.find().sort({ family_name: 1 })\<close> and
  \<^verbatim>\<open>Genre.find().sort({ name: 1 })\<close>, find with a sort key.
\<close>

definition find_authors_sorted :: "store \<Rightarrow> author list" where
  "find_authors_sorted s = sort_key family_name (Author_coll s)"

definition find_genres_sorted :: "store \<Rightarrow> genre list" where
  "find_genres_sorted s = sort_key genre_name (Genre_coll s)"

text \<open>
  Modelled from the spec: \<^verbatim>\<open>populate("author genre")\<close>, the join of a book with the
  documents it references. A reference that resolves to nothing joins to nothing.
\<close>

definition populate :: "store \<Rightarrow> book \<Rightarrow> populated" where
  "populate s b =
     Populated b
       (find (\<lambda>a. author_id a = author b) (Author_coll s))
       (List.map_filter (\<lambda>g. find (\<lambda>d. genre_id d = g) (Genre_coll s)) (genre b))"


text \<open>
  Modelled from the spec: \<^verbatim>\<open>Book.findByIdAndDelete(id)\<close>, delete-by-id. It removes the
  document with that identifier, and nothing when there is none.
\<close>

fun findByIdAndDelete :: "oid \<Rightarrow> book list \<Rightarrow> book list" where
  "findByIdAndDelete i [] = []"
| "findByIdAndDelete i (d # ds) =
     (if book_id d = i then ds else d # findByIdAndDelete i ds)"

text \<open>
  Modelled from the spec: \<^verbatim>\<open>Book.findByIdAndUpdate(id, update, {})\<close>, update-by-id. It
  writes the fields of \<open>update\<close> over the document with that identifier and answers with
  the document it found, or with \<^verbatim>\<open>null\<close> (and no write) when there is none. The
  handler reads nothing but the identifier of the answer.
\<close>

fun findByIdAndUpdate :: "oid \<Rightarrow> book \<Rightarrow> book list \<Rightarrow> book option \<times> book list" where
  "findByIdAndUpdate i update [] = (None, [])"
| "findByIdAndUpdate i update (d # ds) =
     (if book_id d = i then (Some d, update # ds)
      else (case findByIdAndUpdate i update ds of (found, ds') \<Rightarrow> (found, d # ds')))"

text \<open>
  Modelled from the spec: \<^verbatim>\<open>countDocuments(filter).exec()\<close>, the count. A query names a
  model and a filter: \<^verbatim>\<open>{}\<close> or \<^verbatim>\<open>{ status: v }\<close>. Only book instances have a status.
  A query may fail (the store cannot be reached); which queries fail is the parameter
  \<open>failing\<close>.
\<close>

datatype model = Book | BookInstance | Author | Genre

datatype filter = Any | Status string

type_synonym query = "model \<times> filter"

fun countDocuments :: "store \<Rightarrow> query \<Rightarrow> nat" where
  "countDocuments s (Book, Any) = length (Book_coll s)"
| "countDocuments s (BookInstance, Any) = length (BookInstance_coll s)"
| "countDocuments s (BookInstance, Status v) =
     length (filter (\<lambda>d. status d = v) (BookInstance_coll s))"
| "countDocuments s (Author, Any) = length (Author_coll s)"
| "countDocuments s (Genre, Any) = length (Genre_coll s)"
| "countDocuments s (_, Status v) = 0"

definition exec :: "(query \<Rightarrow> bool) \<Rightarrow> store \<Rightarrow> query \<Rightarrow> error + nat" where
  "exec failing s q = (if failing q then Inl StoreFailure else Inr (countDocuments s q))"

text \<open>
  \<^verbatim>\<open>Promise.all\<close>: it fulfils with every value, in the order of the array, when every
  promise fulfils, and rejects when one rejects.
\<close>

fun Promise_all :: "(error + 'a) list \<Rightarrow> error + 'a list" where
  "Promise_all [] = Inr []"
| "Promise_all (p # ps) =
     (case p of
        Inl err \<Rightarrow> Inl err
      | Inr v \<Rightarrow> (case Promise_all ps of Inl err \<Rightarrow> Inl err | Inr vs \<Rightarrow> Inr (v # vs)))"

section \<open>The validation layer\<close>

text \<open>
  What the handlers take from outside the sources: the two sanitizers of
  express-validator, and the \<^verbatim>\<open>url\<close> virtual of the Book model, which the specification
  describes as a canonical detail-page path computed from the identifier.
\<close>

record env =
  trim :: "string \<Rightarrow> string"
  escape :: "string \<Rightarrow> string"
  book_url :: "oid \<Rightarrow> string"

text \<open>The validation layer reads an absent field as the empty string.\<close>

definition toString :: "string option \<Rightarrow> string" where
  "toString v = (case v of None \<Rightarrow> [] | Some x \<Rightarrow> x)"

text \<open>
  \<^verbatim>\<open>body(fld, message).trim().isLength({ min: 1 }).escape()\<close>: the field's value is
  trimmed, the trimmed value is checked for a length of at least one (a failure adds the
  chain's message to the errors of the request), and the trimmed value is escaped. The
  result is the value left in \<^verbatim>\<open>req.body\<close> and the errors the chain added.
\<close>

definition body_chain :: "env \<Rightarrow> string \<Rightarrow> string \<Rightarrow> string option \<Rightarrow> string \<times> verror list" where
  "body_chain env fld message v =
     (let trimmed = trim env (toString v)
      in (escape env trimmed,
          if 1 \<le> length trimmed then [] else [\<lparr>err_path = fld, err_msg = message\<rparr>]))"

text \<open>\<^verbatim>\<open>body("genre.*").escape()\<close>: every element of the array is escaped.\<close>

definition genre_chain :: "env \<Rightarrow> field \<Rightarrow> field" where
  "genre_chain env g = (case g of Array xs \<Rightarrow> Array (map (escape env) xs) | _ \<Rightarrow> g)"

text \<open>
  The request after the validators have run: \<^verbatim>\<open>req.body\<close> with the sanitized values,
  and the errors that \<^verbatim>\<open>validationResult(req)\<close> extracts.
\<close>

record validated =
  v_title :: string
  v_author :: string
  v_summary :: string
  v_isbn :: string
  v_genre :: field
  v_errors :: "verror list"

text \<open>
  The five chains of \<^verbatim>\<open>book_create_post\<close> and \<^verbatim>\<open>book_update_post\<close> (the two arrays
  list the same chains), run in their order.
\<close>

definition validators :: "env \<Rightarrow> body \<Rightarrow> validated" where
  "validators env b =
     (let (t, e1) = body_chain env ''title'' ''Title must not be empty.'' (body_title b);
          (a, e2) = body_chain env ''author'' ''Author must not be empty.'' (body_author b);
          (su, e3) = body_chain env ''summary'' ''Summary must not be empty.'' (body_summary b);
          (i, e4) = body_chain env ''isbn'' ''ISBN must not be empty.'' (body_isbn b);
          g = genre_chain env (body_genre b)
      in \<lparr>v_title = t, v_author = a, v_summary = su, v_isbn = i, v_genre = g,
          v_errors = e1 @ e2 @ e3 @ e4\<rparr>)"

text \<open>
  Modelled from the spec: the Book model, which is not among the sources, keeps in
  \<^verbatim>\<open>genre\<close> zero or more references to genres. It reads the \<^verbatim>\<open>genre\<close> it is
  constructed with as an array of references; an array with no elements holds none. The
  handlers construct a book from what the first function of their array left, which is
  an array: the cases of a single string and of a Number are not reached from them.
\<close>

definition cast_genre :: "field \<Rightarrow> oid list" where
  "cast_genre g =
     (case g of
        Array xs \<Rightarrow> xs
      | Sparse n \<Rightarrow> []
      | Scalar v \<Rightarrow> [v]
      | Undefined \<Rightarrow> []
      | Number x \<Rightarrow> [])"

text \<open>
  An element of a book's \<^verbatim>\<open>genre\<close> array: the reference to a genre, or, once the book
  has been through \<^verbatim>\<open>populate\<close>, the genre document itself.
\<close>

datatype genre_element = Ref oid | Doc genre

text \<open>
  \<^verbatim>\<open>book.genre.includes(genre._id)\<close>: whether an element of the array is that
  identifier. A document is not an identifier.
\<close>

definition genre_includes :: "genre_element list \<Rightarrow> oid \<Rightarrow> bool" where
  "genre_includes arr i = (Ref i \<in> set arr)"

text \<open>
  The loop over \<^verbatim>\<open>allGenres\<close>: a genre is marked \<^verbatim>\<open>checked\<close> when the book's
  \<^verbatim>\<open>genre\<close> includes its identifier.
\<close>

definition mark_checked :: "genre_element list \<Rightarrow> genre list \<Rightarrow> (genre \<times> bool) list" where
  "mark_checked book_genre allGenres =
     map (\<lambda>g. (g, genre_includes book_genre (genre_id g))) allGenres"

section \<open>The book controller\<close>

text \<open>
  \<^verbatim>\<open>exports.index\<close>. The five queries are started when the array is built; the handler
  then waits for all of them. The result is the queries issued and the calls made.
\<close>

definition index :: "(query \<Rightarrow> bool) \<Rightarrow> store \<Rightarrow> query list \<times> effect list" where
  "index failing s =
     (let queries = [(Book, Any), (BookInstance, Any), (BookInstance, Status ''Available''),
                     (Author, Any), (Genre, Any)]
      in (queries,
          asyncHandler
            (case Promise_all (map (exec failing s) queries) of
               Inl err \<Rightarrow> Inl err
             | Inr [numBooks, numInstances, numAvailableInstances, numAuthors, numGenres] \<Rightarrow>
                 Inr [Render ''index''
                        (Index_locals ''Local Library Home'' numBooks numInstances
                           numAvailableInstances numAuthors numGenres)]
             | Inr _ \<Rightarrow> Inr [])))"

text \<open>\<^verbatim>\<open>exports.book_detail\<close>, with \<open>params_id\<close> for \<^verbatim>\<open>req.params.id\<close>.\<close>

definition book_detail :: "oid \<Rightarrow> store \<Rightarrow> effect list" where
  "book_detail params_id s =
     (let book = map_option (populate s) (findById params_id (Book_coll s));
          bookInstances = find_instances params_id (BookInstance_coll s)
      in asyncHandler
           (case book of
              None \<Rightarrow> Inr [Next (Error ''Book not found'' (Some 404))]
            | Some b \<Rightarrow>
                Inr [Render ''book_detail''
                       (Book_detail_locals (title (doc b)) b bookInstances)]))"

text \<open>
  \<^verbatim>\<open>new Array(x)\<close> for a Number \<open>x\<close>: the array of length \<open>x\<close> with no elements when
  \<open>x\<close> is a whole number from 0 to \<open>2\<^sup>3\<^sup>2 - 1\<close>, and a thrown \<^verbatim>\<open>RangeError\<close> otherwise.
\<close>

definition new_Array :: "number \<Rightarrow> error + field" where
  "new_Array x =
     (case x of
        Integer n \<Rightarrow> (if 0 \<le> n \<and> n < 2 ^ 32 then Inr (Sparse (nat n)) else Inl RangeError)
      | NonInteger \<Rightarrow> Inl RangeError)"

text \<open>
  The first function of \<^verbatim>\<open>exports.book_create_post\<close>: \<^verbatim>\<open>req.body.genre\<close> is left alone
  when it is an array, becomes \<^verbatim>\<open>[]\<close> when it is undefined, and \<^verbatim>\<open>new Array(v)\<close>
  otherwise: the array of the one string \<open>v\<close> for a string, and what \<^const>\<open>new_Array\<close>
  gives for a Number. The result is the request as the function leaves it, or the error
  it throws.
\<close>

definition create_genre_to_array :: "body \<Rightarrow> error + body" where
  "create_genre_to_array b =
     (case body_genre b of
        Array xs \<Rightarrow> Inr b
      | Sparse n \<Rightarrow> Inr b
      | Undefined \<Rightarrow> Inr (b\<lparr>body_genre := Array []\<rparr>)
      | Scalar v \<Rightarrow> Inr (b\<lparr>body_genre := Array [v]\<rparr>)
      | Number x \<Rightarrow>
          (case new_Array x of
             Inl err \<Rightarrow> Inl err
           | Inr arr \<Rightarrow> Inr (b\<lparr>body_genre := arr\<rparr>)))"



text \<open>
  \<^verbatim>\<open>exports.book_delete_get\<close>. The redirect is not followed by a \<^verbatim>\<open>return\<close>: the call
  of \<^verbatim>\<open>res.render\<close> comes after it.
\<close>

definition book_delete_get :: "oid \<Rightarrow> store \<Rightarrow> effect list" where
  "book_delete_get params_id s =
     (let book = findById params_id (Book_coll s);
          bookInstances = find_instances params_id (BookInstance_coll s)
      in asyncHandler
           (Inr ((if book = None then [Redirect ''/catalog/books''] else [])
                 @ [Render ''book_delete''
                      (Book_delete_locals ''Delete Book'' book bookInstances)])))"

text \<open>\<^verbatim>\<open>exports.book_delete_post\<close>, with \<open>bookid\<close> for \<^verbatim>\<open>req.body.bookid\<close>.\<close>

definition book_delete_post :: "oid \<Rightarrow> store \<Rightarrow> store \<times> effect list" where
  "book_delete_post bookid s =
     (let book = findById bookid (Book_coll s);
          bookInstances = find_instances bookid (BookInstance_coll s)
      in if length bookInstances > 0 then
           (s, asyncHandler
                 (Inr [Render ''book_delete''
                         (Book_delete_locals ''Delete Book'' book bookInstances)]))
         else
           (s\<lparr>Book_coll := findByIdAndDelete bookid (Book_coll s)\<rparr>,
            asyncHandler (Inr [Redirect ''/catalog/books''])))"

text \<open>
  \<^verbatim>\<open>exports.book_update_get\<close>. The book comes from
  \<^verbatim>\<open>populate("author genre")\<close>, so the array that the loop tests holds genre
  documents.
\<close>

definition book_update_get :: "oid \<Rightarrow> store \<Rightarrow> effect list" where
  "book_update_get params_id s =
     (let book = map_option (populate s) (findById params_id (Book_coll s));
          allAuthors = find_authors_sorted s;
          allGenres = find_genres_sorted s
      in asyncHandler
           (case book of
              None \<Rightarrow> Inr [Next (Error ''Book not found'' (Some 404))]
            | Some b \<Rightarrow>
                Inr [Render ''book_form''
                       (Book_form_locals ''Update Book'' allAuthors
                          (mark_checked (map Doc (genre_docs b)) allGenres)
                          (Some (Joined b)) None)]))"

text \<open>
  The first function of \<^verbatim>\<open>exports.book_update_post\<close>, the same coercion with
  \<^verbatim>\<open>instanceof Array\<close> for the test.
\<close>

definition update_genre_to_array :: "body \<Rightarrow> error + body" where
  "update_genre_to_array b =
     (case body_genre b of
        Array xs \<Rightarrow> Inr b
      | Sparse n \<Rightarrow> Inr b
      | Undefined \<Rightarrow> Inr (b\<lparr>body_genre := Array []\<rparr>)
      | Scalar v \<Rightarrow> Inr (b\<lparr>body_genre := Array [v]\<rparr>)
      | Number x \<Rightarrow>
          (case new_Array x of
             Inl err \<Rightarrow> Inl err
           | Inr arr \<Rightarrow> Inr (b\<lparr>body_genre := arr\<rparr>)))"

text \<open>
  The last function of \<^verbatim>\<open>exports.book_update_post\<close>. The document is constructed with
  \<^verbatim>\<open>_id: req.params.id\<close>. Reading \<^verbatim>\<open>updatedBook.url\<close> when the update answered
  \<^verbatim>\<open>null\<close> throws, and the rejection goes to \<^verbatim>\<open>next\<close>.
\<close>

definition book_update_handler :: "env \<Rightarrow> oid \<Rightarrow> validated \<Rightarrow> store \<Rightarrow> store \<times> effect list" where
  "book_update_handler env params_id req s =
     (let errors = v_errors req;
          book = \<lparr>book_id = params_id, title = v_title req, author = v_author req,
                   summary = v_summary req, isbn = v_isbn req,
                   genre = (if v_genre req = Undefined then [] else cast_genre (v_genre req))\<rparr>
      in if errors \<noteq> [] then
           (let allAuthors = find_authors_sorted s;
                allGenres = find_genres_sorted s
            in (s, asyncHandler
                     (Inr [Render ''book_form''
                             (Book_form_locals ''Update Book'' allAuthors
                                (mark_checked (map Ref (genre book)) allGenres)
                                (Some (Plain book)) (Some errors))])))
         else
           (case findByIdAndUpdate params_id book (Book_coll s) of
              (updatedBook, docs) \<Rightarrow>
                (s\<lparr>Book_coll := docs\<rparr>,
                 asyncHandler
                   (case updatedBook of
                      None \<Rightarrow> Inl TypeError
                    | Some u \<Rightarrow> Inr [Redirect (book_url env (book_id u))]))))"

text \<open>\<^verbatim>\<open>exports.book_update_post\<close>: the array of functions, run in its order.\<close>

definition book_update_post :: "env \<Rightarrow> oid \<Rightarrow> body \<Rightarrow> store \<Rightarrow> store \<times> effect list" where
  "book_update_post env params_id b s =
     (case update_genre_to_array b of
        Inl err \<Rightarrow> (s, [Next err])
      | Inr b' \<Rightarrow> book_update_handler env params_id (validators env b') s)"

section \<open>Concrete instances\<close>

text \<open>
  A validation layer to run the handlers with, after validator.js: \<open>sample_trim\<close>
  removes white space at both ends, \<open>sample_escape\<close> replaces the characters that are
  significant in HTML by entities. \<open>sample_book_url\<close> is a detail path built like the
  Author model's.
\<close>

definition is_space :: "char \<Rightarrow> bool" where
  "is_space c = (c = CHR '' '' \<or> c = CHR 0x09 \<or> c = CHR 0x0A \<or> c = CHR 0x0D)"

definition sample_trim :: "string \<Rightarrow> string" where
  "sample_trim str = rev (dropWhile is_space (rev (dropWhile is_space str)))"

fun escape_char :: "char \<Rightarrow> string" where
  "escape_char c =
     (if c = CHR ''&'' then ''&amp;''
      else if c = CHR 0x22 then ''&quot;''
      else if c = CHR 0x27 then ''&#x27;''
      else if c = CHR ''<'' then ''&lt;''
      else if c = CHR ''>'' then ''&gt;''
      else if c = CHR ''/'' then ''&#x2F;''
      else if c = CHR 0x5C then ''&#x5C;''
      else if c = CHR 0x60 then ''&#96;''
      else [c])"

definition sample_escape :: "string \<Rightarrow> string" where
  "sample_escape str = concat (map escape_char str)"

definition sample_book_url :: "oid \<Rightarrow> string" where
  "sample_book_url i = ''/catalog/book/'' @ i"

definition sample_env :: env where
  "sample_env = \<lparr>trim = sample_trim, escape = sample_escape, book_url = sample_book_url\<rparr>"

text \<open>
  A stand-in for luxon on the two dates of the sample author, read in UTC.
\<close>

definition sample_DATE_MED :: "date \<Rightarrow> string" where
  "sample_DATE_MED t =
     (if t = - 1553644800000 then ''8 Oct 1920''
      else if t = 508464000000 then ''11 Feb 1986''
      else ''Invalid DateTime'')"

text \<open>
  A catalogue of two books, the first with two copies and the second with none, their
  authors and one genre; and an author record with a date of death and no date of birth.
\<close>

definition sample_store :: store where
  "sample_store =
     \<lparr>Book_coll =
        [\<lparr>book_id = ''b1'', title = ''Dune'', author = ''a1'', summary = ''Desert planet'',
          isbn = ''9780441013593'', genre = [''g1'']\<rparr>,
         \<lparr>book_id = ''b2'', title = ''Emma'', author = ''a2'', summary = ''A match-maker'',
          isbn = ''9780141439587'', genre = []\<rparr>],
      BookInstance_coll =
        [\<lparr>instance_id = ''i1'', instance_book = ''b1'', imprint = ''Ace, 2005'',
          status = ''Available'', due_back = None\<rparr>,
         \<lparr>instance_id = ''i2'', instance_book = ''b1'', imprint = ''Ace, 2005'',
          status = ''Loaned'', due_back = Some 1583366400000\<rparr>],
      Author_coll =
        [\<lparr>author_id = ''a1'', first_name = ''Frank'', family_name = ''Herbert'',
          date_of_birth = Some (- 1553644800000), date_of_death = Some 508464000000\<rparr>,
         \<lparr>author_id = ''a2'', first_name = ''Jane'', family_name = ''Austen'',
          date_of_birth = None, date_of_death = None\<rparr>],
      Genre_coll = [\<lparr>genre_id = ''g1'', genre_name = ''Science Fiction''\<rparr>]\<rparr>"

definition death_only_author :: author where
  "death_only_author =
     \<lparr>author_id = ''a3'', first_name = ''Ann'', family_name = ''Lee'',
      date_of_birth = None, date_of_death = Some 508464000000\<rparr>"

text \<open>
  Two submissions of the book form: one with a blank title and no summary, one with every
  required field filled in and a genre value that has white space around it.
\<close>

definition blank_title_body :: body where
  "blank_title_body =
     \<lparr>body_title = Some ''  '', body_author = Some ''a1'', body_summary = None,
      body_isbn = Some ''9780441013593'', body_genre = Scalar ''g1''\<rparr>"

definition dune_body :: body where
  "dune_body =
     \<lparr>body_title = Some '' Dune '', body_author = Some ''a1'',
      body_summary = Some ''Sand <and> spice'', body_isbn = Some ''9780441013593'',
      body_genre = Scalar '' g1 ''\<rparr>"

text \<open>Two behaviours of the store under the index operation's queries.\<close>

definition all_answer :: "query \<Rightarrow> bool" where
  "all_answer q = False"

definition author_count_fails :: "query \<Rightarrow> bool" where
  "author_count_fails q = (q = (Author, Any))"


section \<open>Facts about the store operations and the validators\<close>

lemma findById_None_iff: "findById i docs = None \<longleftrightarrow> i \<notin> book_id ` set docs"
  by (induction docs) (auto simp: findById_def)

lemma findByIdAndDelete_distinct:
  "distinct (map book_id docs) \<Longrightarrow>
     findByIdAndDelete i docs = filter (\<lambda>d. book_id d \<noteq> i) docs"
proof (induction docs)
  case Nil
  show ?case by simp
next
  case (Cons d ds)
  show ?case
  proof (cases "book_id d = i")
    case True
    with Cons.prems have "i \<notin> book_id ` set ds" by auto
    then have "filter (\<lambda>d. book_id d \<noteq> i) ds = ds"
      by (intro filter_True) auto
    with True show ?thesis by simp
  next
    case False
    with Cons show ?thesis by simp
  qed
qed


lemma findByIdAndUpdate_ids:
  "book_id u = i \<Longrightarrow> map book_id (snd (findByIdAndUpdate i u docs)) = map book_id docs"
  by (induction docs) (auto split: prod.splits)

lemma findByIdAndUpdate_set:
  "set (snd (findByIdAndUpdate i u docs)) \<subseteq> insert u (set docs)"
  by (induction docs) (auto split: prod.splits)

lemma findByIdAndUpdate_found:
  "book_id u = i \<Longrightarrow> i \<in> book_id ` set docs \<Longrightarrow>
     findById i (snd (findByIdAndUpdate i u docs)) = Some u
     \<and> (\<exists>d. fst (findByIdAndUpdate i u docs) = Some d \<and> book_id d = i)"
  by (induction docs) (auto simp: findById_def split: prod.splits)

lemma body_chain_errors:
  "snd (body_chain env fld message v)
     = (if trim env (toString v) = [] then [\<lparr>err_path = fld, err_msg = message\<rparr>] else [])"
  by (cases "trim env (toString v)") (simp_all add: body_chain_def Let_def)

lemma body_chain_value:
  "fst (body_chain env fld message v) = escape env (trim env (toString v))"
  by (simp add: body_chain_def Let_def)

lemma v_errors_validators:
  "v_errors (validators env b)
     = (if trim env (toString (body_title b)) = []
        then [\<lparr>err_path = ''title'', err_msg = ''Title must not be empty.''\<rparr>] else [])
     @ (if trim env (toString (body_author b)) = []
        then [\<lparr>err_path = ''author'', err_msg = ''Author must not be empty.''\<rparr>] else [])
     @ (if trim env (toString (body_summary b)) = []
        then [\<lparr>err_path = ''summary'', err_msg = ''Summary must not be empty.''\<rparr>] else [])
     @ (if trim env (toString (body_isbn b)) = []
        then [\<lparr>err_path = ''isbn'', err_msg = ''ISBN must not be empty.''\<rparr>] else [])"
  unfolding validators_def Let_def
  by (simp add: case_prod_beta body_chain_errors)

lemma validators_fields:
  "v_title (validators env b) = escape env (trim env (toString (body_title b)))"
  "v_author (validators env b) = escape env (trim env (toString (body_author b)))"
  "v_summary (validators env b) = escape env (trim env (toString (body_summary b)))"
  "v_isbn (validators env b) = escape env (trim env (toString (body_isbn b)))"
  "v_genre (validators env b) = genre_chain env (body_genre b)"
  unfolding validators_def Let_def
  by (simp_all add: case_prod_beta body_chain_value)

lemma genre_to_array_form:
  "\<not> is_Number (body_genre b) \<Longrightarrow>
     \<exists>b'. create_genre_to_array b = Inr b' \<and> update_genre_to_array b = Inr b'
        \<and> body_title b' = body_title b \<and> body_author b' = body_author b
        \<and> body_summary b' = body_summary b \<and> body_isbn b' = body_isbn b
        \<and> cast_genre (genre_chain env (body_genre b'))
            = map (escape env)
                (case body_genre b of
                   Undefined \<Rightarrow> [] | Scalar v \<Rightarrow> [v] | Array xs \<Rightarrow> xs | _ \<Rightarrow> [])
        \<and> genre_chain env (body_genre b') \<noteq> Undefined"
  by (cases "body_genre b")
     (simp_all add: create_genre_to_array_def update_genre_to_array_def genre_chain_def
        cast_genre_def)

lemma book_update_handler_store:
  "fst (book_update_handler env i req s) = s
   \<or> (\<exists>u. book_id u = i
          \<and> fst (book_update_handler env i req s)
              = s\<lparr>Book_coll := snd (findByIdAndUpdate i u (Book_coll s))\<rparr>)"
proof (cases "v_errors req = []")
  case True
  then have "fst (book_update_handler env i req s)
      = s\<lparr>Book_coll := snd (findByIdAndUpdate i
            \<lparr>book_id = i, title = v_title req, author = v_author req,
              summary = v_summary req, isbn = v_isbn req,
              genre = (if v_genre req = Undefined then [] else cast_genre (v_genre req))\<rparr>
            (Book_coll s))\<rparr>"
    by (simp add: book_update_handler_def Let_def split: prod.splits)
  then show ?thesis
    by (intro disjI2 exI conjI) (auto simp del: fst_conv)
next
  case False
  then show ?thesis
    by (simp add: book_update_handler_def Let_def)
qed

lemma book_update_post_store:
  "fst (book_update_post env i b s) = s
   \<or> (\<exists>u. book_id u = i
          \<and> fst (book_update_post env i b s)
              = s\<lparr>Book_coll := snd (findByIdAndUpdate i u (Book_coll s))\<rparr>)"
proof (cases "update_genre_to_array b")
  case (Inl err)
  then show ?thesis
    by (simp add: book_update_post_def)
next
  case (Inr b')
  then show ?thesis
    using book_update_handler_store [of env i "validators env b'" s]
    by (simp add: book_update_post_def)
qed

lemma mark_checked_populated:
  "mark_checked (map Doc docs) allGenres = map (\<lambda>g. (g, False)) allGenres"
  by (auto simp: mark_checked_def genre_includes_def)

lemma Promise_all_fulfils:
  "\<forall>p \<in> set ps. \<exists>v. p = Inr v \<Longrightarrow> Promise_all ps = Inr (map projr ps)"
  by (induction ps) auto

lemma Promise_all_rejects:
  "\<exists>p \<in> set ps. p = Inl StoreFailure \<Longrightarrow> \<forall>p \<in> set ps. \<forall>err. p = Inl err \<longrightarrow> err = StoreFailure
     \<Longrightarrow> Promise_all ps = Inl StoreFailure"
proof (induction ps)
  case Nil
  then show ?case by simp
next
  case (Cons p ps)
  show ?case
  proof (cases p)
    case (Inl err)
    with Cons.prems(2) show ?thesis by simp
  next
    case (Inr v)
    with Cons.prems have "\<exists>p \<in> set ps. p = Inl StoreFailure"
      and "\<forall>p \<in> set ps. \<forall>err. p = Inl err \<longrightarrow> err = StoreFailure"
      by auto
    then have "Promise_all ps = Inl StoreFailure"
      by (rule Cons.IH)
    with Inr show ?thesis by simp
  qed
qed

lemmas sample_defs = sample_env_def sample_trim_def sample_escape_def sample_book_url_def
  is_space_def toString_def

lemma sample_bodies_genre:
  "\<not> is_Number (body_genre blank_title_body)"
  "\<not> is_Number (body_genre dune_body)"
  by (simp_all add: blank_title_body_def dune_body_def)

lemma dune_body_trimmed:
  "trim sample_env (toString (body_title dune_body)) = ''Dune''"
  "trim sample_env (toString (body_author dune_body)) = ''a1''"
  "trim sample_env (toString (body_summary dune_body)) = ''Sand <and> spice''"
  "trim sample_env (toString (body_isbn dune_body)) = ''9780441013593''"
  by (simp_all add: sample_defs dune_body_def)

lemma sample_escaped:
  "escape sample_env ''Dune'' = ''Dune''"
  "escape sample_env ''a1'' = ''a1''"
  "escape sample_env ''Sand <and> spice'' = ''Sand &lt;and&gt; spice''"
  "escape sample_env ''9780441013593'' = ''9780441013593''"
  "escape sample_env '' g1 '' = '' g1 ''"
  by (simp_all add: sample_defs)

section \<open>The claims\<close>

text \<open>
  C1. A delete POST for a book that at least one book instance references leaves the store
  as it was, books and instances alike, and renders the confirmation view again, with the
  book and its instances and no error. A delete POST for a book that no instance references
  redirects to the book list and leaves the other collections alone; in a collection whose
  identifiers are distinct, exactly the documents with another identifier remain, so the
  book is gone.
\<close>

theorem book_delete_post_guard:
  "(bookid \<in> instance_book ` set (BookInstance_coll s) \<longrightarrow>
      book_delete_post bookid s
        = (s, [Render ''book_delete''
                 (Book_delete_locals ''Delete Book'' (findById bookid (Book_coll s))
                    (filter (\<lambda>d. instance_book d = bookid) (BookInstance_coll s)))]))
   \<and> (bookid \<notin> instance_book ` set (BookInstance_coll s) \<longrightarrow>
        snd (book_delete_post bookid s) = [Redirect ''/catalog/books'']
        \<and> BookInstance_coll (fst (book_delete_post bookid s)) = BookInstance_coll s
        \<and> Author_coll (fst (book_delete_post bookid s)) = Author_coll s
        \<and> Genre_coll (fst (book_delete_post bookid s)) = Genre_coll s
        \<and> (distinct (map book_id (Book_coll s)) \<longrightarrow>
             Book_coll (fst (book_delete_post bookid s))
               = filter (\<lambda>d. book_id d \<noteq> bookid) (Book_coll s)
             \<and> findById bookid (Book_coll (fst (book_delete_post bookid s))) = None))"
proof -
  have some: "find_instances bookid (BookInstance_coll s) \<noteq> []"
    if "bookid \<in> instance_book ` set (BookInstance_coll s)"
    using that by (auto simp: find_instances_def filter_empty_conv)
  have none: "find_instances bookid (BookInstance_coll s) = []"
    if "bookid \<notin> instance_book ` set (BookInstance_coll s)"
    using that by (auto simp: find_instances_def filter_empty_conv)
  have blocked: "book_delete_post bookid s
        = (s, [Render ''book_delete''
                 (Book_delete_locals ''Delete Book'' (findById bookid (Book_coll s))
                    (filter (\<lambda>d. instance_book d = bookid) (BookInstance_coll s)))])"
    if "bookid \<in> instance_book ` set (BookInstance_coll s)"
    using some[OF that]
    by (simp add: book_delete_post_def Let_def asyncHandler_def)
       (simp add: find_instances_def)
  have deleted: "book_delete_post bookid s
        = (s\<lparr>Book_coll := findByIdAndDelete bookid (Book_coll s)\<rparr>, [Redirect ''/catalog/books''])"
    if "bookid \<notin> instance_book ` set (BookInstance_coll s)"
    using none[OF that] by (simp add: book_delete_post_def Let_def asyncHandler_def)
  have gone: "findById bookid (filter (\<lambda>d. book_id d \<noteq> bookid) (Book_coll s)) = None"
    by (auto simp: findById_None_iff)
  show ?thesis
    using blocked deleted gone by (simp add: findByIdAndDelete_distinct)
qed

text \<open>C1 on the sample catalogue: \<open>b1\<close> has copies and stays, \<open>b2\<close> has none and goes.\<close>

theorem book_delete_post_guard_witness:
  "book_delete_post ''b1'' sample_store
     = (sample_store,
        [Render ''book_delete''
           (Book_delete_locals ''Delete Book'' (findById ''b1'' (Book_coll sample_store))
              (filter (\<lambda>d. instance_book d = ''b1'') (BookInstance_coll sample_store)))])
   \<and> snd (book_delete_post ''b2'' sample_store) = [Redirect ''/catalog/books'']
   \<and> map book_id (Book_coll (fst (book_delete_post ''b2'' sample_store))) = [''b1'']
   \<and> findById ''b2'' (Book_coll (fst (book_delete_post ''b2'' sample_store))) = None"
proof -
  have a: "''b1'' \<in> instance_book ` set (BookInstance_coll sample_store)"
    by (simp add: sample_store_def)
  have b: "''b2'' \<notin> instance_book ` set (BookInstance_coll sample_store)"
    by (simp add: sample_store_def)
  have c: "distinct (map book_id (Book_coll sample_store))"
    by (simp add: sample_store_def)
  have d: "map book_id (filter (\<lambda>d. book_id d \<noteq> ''b2'') (Book_coll sample_store)) = [''b1'']"
    by (simp add: sample_store_def)
  have p1: "book_delete_post ''b1'' sample_store
     = (sample_store,
        [Render ''book_delete''
           (Book_delete_locals ''Delete Book'' (findById ''b1'' (Book_coll sample_store))
              (filter (\<lambda>d. instance_book d = ''b1'') (BookInstance_coll sample_store)))])"
    using book_delete_post_guard [of "''b1''" sample_store] a by blast
  have p2: "snd (book_delete_post ''b2'' sample_store) = [Redirect ''/catalog/books'']"
    and p3: "Book_coll (fst (book_delete_post ''b2'' sample_store))
               = filter (\<lambda>d. book_id d \<noteq> ''b2'') (Book_coll sample_store)"
    and p4: "findById ''b2'' (Book_coll (fst (book_delete_post ''b2'' sample_store))) = None"
    using book_delete_post_guard [of "''b2''" sample_store] b c by blast+
  show ?thesis
    using p1 p2 p4 by (simp add: p3 d)
qed






text \<open>
  C4. A delete GET whose identifier resolves to no book calls the redirect to the book list
  and then, the redirect not being followed by a return, also renders the confirmation
  view, with no book and no instances.
\<close>

theorem book_delete_get_unresolved_falls_through:
  "book_delete_get ''b404'' sample_store
     = [Redirect ''/catalog/books'',
        Render ''book_delete'' (Book_delete_locals ''Delete Book'' None [])]"
  by (simp add: book_delete_get_def findById_def find_instances_def sample_store_def
        asyncHandler_def)

text \<open>
  C5. A detail GET or an update GET whose identifier resolves to no book hands an error
  with the message "Book not found" and the status 404 to the caller, and renders nothing.
\<close>

theorem unresolved_get_is_not_found:
  assumes "params_id \<notin> book_id ` set (Book_coll s)"
  shows "book_detail params_id s = [Next (Error ''Book not found'' (Some 404))]
         \<and> book_update_get params_id s = [Next (Error ''Book not found'' (Some 404))]"
proof -
  have "findById params_id (Book_coll s) = None"
    using assms by (simp add: findById_None_iff)
  then show ?thesis
    by (simp add: book_detail_def book_update_get_def Let_def asyncHandler_def)
qed

text \<open>C5 on an identifier that the sample catalogue does not have.\<close>

theorem unresolved_get_is_not_found_witness:
  "book_detail ''b404'' sample_store = [Next (Error ''Book not found'' (Some 404))]
   \<and> book_update_get ''b404'' sample_store = [Next (Error ''Book not found'' (Some 404))]"
proof -
  have "''b404'' \<notin> book_id ` set (Book_coll sample_store)"
    by (simp add: sample_store_def)
  then show ?thesis
    by (rule unresolved_get_is_not_found)
qed

text \<open>
  C6. An update POST leaves the identifiers of the book collection as they were, in their
  order; every document of the collection afterwards is a document that was there before
  or carries the identifier of the request path. When the submission is valid, its genre
  is anything but a Number and the identifier resolves, the document written under that
  identifier is the one constructed from the sanitized submission with the identifier of
  the request path.
\<close>

theorem update_keeps_identifier:
  "map book_id (Book_coll (fst (book_update_post env params_id b s)))
     = map book_id (Book_coll s)
   \<and> (\<forall>d \<in> set (Book_coll (fst (book_update_post env params_id b s))).
        d \<in> set (Book_coll s) \<or> book_id d = params_id)
   \<and> (trim env (toString (body_title b)) \<noteq> [] \<and> trim env (toString (body_author b)) \<noteq> []
      \<and> trim env (toString (body_summary b)) \<noteq> [] \<and> trim env (toString (body_isbn b)) \<noteq> []
      \<and> \<not> is_Number (body_genre b)
      \<and> params_id \<in> book_id ` set (Book_coll s) \<longrightarrow>
        book_update_post env params_id b s
          = (s\<lparr>Book_coll := snd (findByIdAndUpdate params_id
                  \<lparr>book_id = params_id,
                    title = escape env (trim env (toString (body_title b))),
                    author = escape env (trim env (toString (body_author b))),
                    summary = escape env (trim env (toString (body_summary b))),
                    isbn = escape env (trim env (toString (body_isbn b))),
                    genre = map (escape env)
                              (case body_genre b of
                                 Undefined \<Rightarrow> [] | Scalar v \<Rightarrow> [v] | Array xs \<Rightarrow> xs
                               | _ \<Rightarrow> [])\<rparr>
                  (Book_coll s))\<rparr>,
             [Redirect (book_url env params_id)])
        \<and> findById params_id (Book_coll (fst (book_update_post env params_id b s)))
          = Some \<lparr>book_id = params_id,
                    title = escape env (trim env (toString (body_title b))),
                    author = escape env (trim env (toString (body_author b))),
                    summary = escape env (trim env (toString (body_summary b))),
                    isbn = escape env (trim env (toString (body_isbn b))),
                    genre = map (escape env)
                              (case body_genre b of
                                 Undefined \<Rightarrow> [] | Scalar v \<Rightarrow> [v] | Array xs \<Rightarrow> xs
                               | _ \<Rightarrow> [])\<rparr>)"
proof -
  let ?g = "map (escape env)
              (case body_genre b of
                 Undefined \<Rightarrow> [] | Scalar v \<Rightarrow> [v] | Array xs \<Rightarrow> xs | _ \<Rightarrow> [])"
  let ?book = "\<lparr>book_id = params_id,
                 title = escape env (trim env (toString (body_title b))),
                 author = escape env (trim env (toString (body_author b))),
                 summary = escape env (trim env (toString (body_summary b))),
                 isbn = escape env (trim env (toString (body_isbn b))),
                 genre = ?g\<rparr>"
  let ?upd = "findByIdAndUpdate params_id ?book (Book_coll s)"
  have first: "map book_id (Book_coll (fst (book_update_post env params_id b s)))
                 = map book_id (Book_coll s)"
    using book_update_post_store [of env params_id b s]
    by (auto simp: findByIdAndUpdate_ids)
  have second: "\<forall>d \<in> set (Book_coll (fst (book_update_post env params_id b s))).
                  d \<in> set (Book_coll s) \<or> book_id d = params_id"
    using book_update_post_store [of env params_id b s] findByIdAndUpdate_set
    by fastforce
  have third: "book_update_post env params_id b s
                 = (s\<lparr>Book_coll := snd ?upd\<rparr>, [Redirect (book_url env params_id)])
               \<and> findById params_id (Book_coll (fst (book_update_post env params_id b s)))
                 = Some ?book"
    if valid: "trim env (toString (body_title b)) \<noteq> []"
        "trim env (toString (body_author b)) \<noteq> []"
        "trim env (toString (body_summary b)) \<noteq> []"
        "trim env (toString (body_isbn b)) \<noteq> []"
      and form: "\<not> is_Number (body_genre b)"
      and found: "params_id \<in> book_id ` set (Book_coll s)"
  proof -
    obtain b' where u: "update_genre_to_array b = Inr b'"
      and f: "body_title b' = body_title b" "body_author b' = body_author b"
        "body_summary b' = body_summary b" "body_isbn b' = body_isbn b"
      and g: "cast_genre (genre_chain env (body_genre b')) = ?g"
      and nu: "genre_chain env (body_genre b') \<noteq> Undefined"
      using genre_to_array_form [OF form] by blast
    let ?req = "validators env b'"
    have ok: "v_errors ?req = []"
      using valid by (simp add: v_errors_validators f)
    have fd: "findById params_id (snd ?upd) = Some ?book
             \<and> (\<exists>d. fst ?upd = Some d \<and> book_id d = params_id)"
      by (rule findByIdAndUpdate_found) (simp_all add: found)
    then obtain d where d: "fst ?upd = Some d" "book_id d = params_id"
      by blast
    have eq: "book_update_post env params_id b s
                = (s\<lparr>Book_coll := snd ?upd\<rparr>, [Redirect (book_url env params_id)])"
      unfolding book_update_post_def u
      by (simp add: book_update_handler_def Let_def ok validators_fields f g nu d
            case_prod_beta asyncHandler_def)
    show ?thesis
      using fd by (simp add: eq)
  qed
  show ?thesis
    using first second third by blast
qed

text \<open>C6 on an update of the second sample book.\<close>

theorem update_keeps_identifier_witness:
  "map book_id (Book_coll sample_store) = [''b1'', ''b2'']
   \<and> map book_id (Book_coll (fst (book_update_post sample_env ''b2'' dune_body sample_store)))
       = [''b1'', ''b2'']
   \<and> snd (book_update_post sample_env ''b2'' dune_body sample_store)
       = [Redirect ''/catalog/book/b2'']
   \<and> findById ''b2'' (Book_coll (fst (book_update_post sample_env ''b2'' dune_body sample_store)))
       = Some \<lparr>book_id = ''b2'', title = ''Dune'', author = ''a1'',
                summary = ''Sand &lt;and&gt; spice'', isbn = ''9780441013593'',
                genre = ['' g1 '']\<rparr>"
proof -
  have ids: "map book_id (Book_coll sample_store) = [''b1'', ''b2'']"
    by (simp add: sample_store_def)
  have found: "''b2'' \<in> book_id ` set (Book_coll sample_store)"
    by (simp add: sample_store_def)
  have g: "body_genre dune_body = Scalar '' g1 ''"
    by (simp add: dune_body_def)
  have u: "book_url sample_env ''b2'' = ''/catalog/book/b2''"
    by (simp add: sample_defs)
  note inst = update_keeps_identifier [of sample_env "''b2''" dune_body sample_store]
  have valid: "trim sample_env (toString (body_title dune_body)) \<noteq> []
      \<and> trim sample_env (toString (body_author dune_body)) \<noteq> []
      \<and> trim sample_env (toString (body_summary dune_body)) \<noteq> []
      \<and> trim sample_env (toString (body_isbn dune_body)) \<noteq> []
      \<and> \<not> is_Number (body_genre dune_body)
      \<and> ''b2'' \<in> book_id ` set (Book_coll sample_store)"
    using found by (simp add: dune_body_trimmed sample_bodies_genre)
  have p1: "map book_id (Book_coll (fst (book_update_post sample_env ''b2'' dune_body sample_store)))
              = map book_id (Book_coll sample_store)"
    using inst by blast
  have p2: "snd (book_update_post sample_env ''b2'' dune_body sample_store)
              = [Redirect (book_url sample_env ''b2'')]"
    using inst valid by simp
  have p3: "findById ''b2''
              (Book_coll (fst (book_update_post sample_env ''b2'' dune_body sample_store)))
              = Some \<lparr>book_id = ''b2'', title = ''Dune'', author = ''a1'',
                       summary = ''Sand &lt;and&gt; spice'', isbn = ''9780441013593'',
                       genre = ['' g1 '']\<rparr>"
  proof -
    have "findById ''b2''
              (Book_coll (fst (book_update_post sample_env ''b2'' dune_body sample_store)))
            = Some \<lparr>book_id = ''b2'',
                title = escape sample_env (trim sample_env (toString (body_title dune_body))),
                author = escape sample_env (trim sample_env (toString (body_author dune_body))),
                summary = escape sample_env (trim sample_env (toString (body_summary dune_body))),
                isbn = escape sample_env (trim sample_env (toString (body_isbn dune_body))),
                genre = map (escape sample_env)
                          (case body_genre dune_body of
                             Undefined \<Rightarrow> [] | Scalar v \<Rightarrow> [v] | Array xs \<Rightarrow> xs
                           | _ \<Rightarrow> [])\<rparr>"
      using inst valid by blast
    then show ?thesis
      by (simp add: dune_body_trimmed sample_escaped g)
  qed
  show ?thesis
    by (simp add: p1 p2 p3 ids u)
qed



text \<open>
  C8. The index operation issues five count queries: all books, all book instances, the
  available book instances, all authors, all genres. When none of them fails it renders
  the summary view with the five counts; when any of them fails it renders nothing and the
  failure goes to the caller.
\<close>

theorem index_all_or_nothing:
  "fst (index failing s)
     = [(Book, Any), (BookInstance, Any), (BookInstance, Status ''Available''),
        (Author, Any), (Genre, Any)]
   \<and> ((\<forall>q \<in> set (fst (index failing s)). \<not> failing q) \<longrightarrow>
        snd (index failing s)
          = [Render ''index''
               (Index_locals ''Local Library Home''
                  (length (Book_coll s))
                  (length (BookInstance_coll s))
                  (length (filter (\<lambda>d. status d = ''Available'') (BookInstance_coll s)))
                  (length (Author_coll s))
                  (length (Genre_coll s)))])
   \<and> ((\<exists>q \<in> set (fst (index failing s)). failing q) \<longrightarrow>
        snd (index failing s) = [Next StoreFailure])"
proof -
  let ?qs = "[(Book, Any), (BookInstance, Any), (BookInstance, Status ''Available''),
              (Author, Any), (Genre, Any)]"
  have qs: "fst (index failing s) = ?qs"
    by (simp add: index_def)
  have ok: "snd (index failing s)
          = [Render ''index''
               (Index_locals ''Local Library Home''
                  (length (Book_coll s))
                  (length (BookInstance_coll s))
                  (length (filter (\<lambda>d. status d = ''Available'') (BookInstance_coll s)))
                  (length (Author_coll s))
                  (length (Genre_coll s)))]"
    if "\<forall>q \<in> set ?qs. \<not> failing q"
  proof -
    have "\<forall>p \<in> set (map (exec failing s) ?qs). \<exists>v. p = Inr v"
      using that by (simp add: exec_def)
    then have "Promise_all (map (exec failing s) ?qs) = Inr (map projr (map (exec failing s) ?qs))"
      by (rule Promise_all_fulfils)
    moreover have "map projr (map (exec failing s) ?qs) = map (countDocuments s) ?qs"
      using that by (simp add: exec_def)
    ultimately have "Promise_all (map (exec failing s) ?qs) = Inr (map (countDocuments s) ?qs)"
      by simp
    then show ?thesis
      by (simp add: index_def asyncHandler_def)
  qed
  have bad: "snd (index failing s) = [Next StoreFailure]"
    if "\<exists>q \<in> set ?qs. failing q"
  proof -
    have "\<exists>p \<in> set (map (exec failing s) ?qs). p = Inl StoreFailure"
      using that by (auto simp: exec_def)
    moreover have "\<forall>p \<in> set (map (exec failing s) ?qs). \<forall>err. p = Inl err \<longrightarrow> err = StoreFailure"
      by (auto simp: exec_def)
    ultimately have "Promise_all (map (exec failing s) ?qs) = Inl StoreFailure"
      by (rule Promise_all_rejects)
    then show ?thesis
      by (simp add: index_def asyncHandler_def)
  qed
  show ?thesis
    using ok bad unfolding qs by blast
qed

text \<open>C8 on the sample catalogue, with every query answering and with one failing.\<close>

theorem index_all_or_nothing_witness:
  "snd (index all_answer sample_store)
     = [Render ''index'' (Index_locals ''Local Library Home'' 2 2 1 2 1)]
   \<and> length (fst (index author_count_fails sample_store)) = 5
   \<and> snd (index author_count_fails sample_store) = [Next StoreFailure]"
proof -
  note ok = index_all_or_nothing [of all_answer sample_store]
  note bad = index_all_or_nothing [of author_count_fails sample_store]
  have qs: "fst (index all_answer sample_store)
              = [(Book, Any), (BookInstance, Any), (BookInstance, Status ''Available''),
                 (Author, Any), (Genre, Any)]"
    using ok by blast
  have qs': "fst (index author_count_fails sample_store)
              = [(Book, Any), (BookInstance, Any), (BookInstance, Status ''Available''),
                 (Author, Any), (Genre, Any)]"
    using bad by blast
  have h1: "\<forall>q \<in> set (fst (index all_answer sample_store)). \<not> all_answer q"
    by (simp add: all_answer_def)
  have h2: "\<exists>q \<in> set (fst (index author_count_fails sample_store)). author_count_fails q"
    unfolding qs' by (simp add: author_count_fails_def)
  have p1: "snd (index all_answer sample_store)
     = [Render ''index''
               (Index_locals ''Local Library Home''
                  (length (Book_coll sample_store))
                  (length (BookInstance_coll sample_store))
                  (length (filter (\<lambda>d. status d = ''Available'') (BookInstance_coll sample_store)))
                  (length (Author_coll sample_store))
                  (length (Genre_coll sample_store)))]"
    using ok h1 by blast
  have p2: "snd (index author_count_fails sample_store) = [Next StoreFailure]"
    using bad h2 by blast
  show ?thesis
    by (simp add: p1 p2 qs') (simp add: sample_store_def)
qed

text \<open>
  C9, as the code has it. With both dates the lifespan is \<^verbatim>\<open>Born: <date> - Died: <date>\<close>;
  with the date of birth alone it is \<^verbatim>\<open>Born: <date>\<close>; with the date of death alone it is
  \<^verbatim>\<open> - Died: <date>\<close>, the separator staying in front of the death clause; with neither
  date it is the empty string.
\<close>

theorem lifespan_cases:
  "lifespan f (a\<lparr>date_of_birth := Some b, date_of_death := Some d\<rparr>)
     = ''Born: '' @ f b @ '' - Died: '' @ f d
   \<and> lifespan f (a\<lparr>date_of_birth := Some b, date_of_death := None\<rparr>) = ''Born: '' @ f b
   \<and> lifespan f (a\<lparr>date_of_birth := None, date_of_death := Some d\<rparr>) = '' - Died: '' @ f d
   \<and> lifespan f (a\<lparr>date_of_birth := None, date_of_death := None\<rparr>) = []"
  by (simp add: lifespan_def)

text \<open>
  C9, as the specification states it, fails for an author with a date of death and no date
  of birth: the code keeps the separator in front of the death clause.
\<close>

theorem lifespan_death_only_counterexample:
  "lifespan sample_DATE_MED death_only_author = '' - Died: 11 Feb 1986''
   \<and> spec_lifespan sample_DATE_MED death_only_author = ''Died: 11 Feb 1986''
   \<and> lifespan sample_DATE_MED death_only_author
       \<noteq> spec_lifespan sample_DATE_MED death_only_author"
  by (simp add: lifespan_def spec_lifespan_def sample_DATE_MED_def death_only_author_def)



end
